theory Spec2Isabelle
  imports Main
begin

section \<open>Strings\<close>

text \<open>
  JavaScript strings are modelled as \<^typ>\<open>string\<close>, read as the bytes of their UTF-8
  encoding. The program only concatenates strings, tests them for emptiness and replaces
  the five ASCII characters \<open>&\<close>, \<open><\<close>, \<open>>\<close>, double quote and single quote; ASCII bytes never
  occur inside a multi-byte sequence, so these operations agree with the ones on code units.
\<close>

definition emDash :: string where
  \<comment> \<open>the placeholder glyph, U+2014\<close>
  "emDash = [CHR 0xE2, CHR 0x80, CHR 0x94]"

definition DATA_FILE :: string where
  "DATA_FILE = ''./time-tenses.json''"

definition errorPrefix :: string where
  \<comment> \<open>the Russian text in front of the error message in \<open>showError\<close>, ending in colon and space\<close>
  "errorPrefix =
     [CHR 0xD0, CHR 0x9E, CHR 0xD1, CHR 0x88, CHR 0xD0, CHR 0xB8, CHR 0xD0, CHR 0xB1,
      CHR 0xD0, CHR 0xBA, CHR 0xD0, CHR 0xB0, CHR 0x20, CHR 0xD0, CHR 0xB7, CHR 0xD0,
      CHR 0xB0, CHR 0xD0, CHR 0xB3, CHR 0xD1, CHR 0x80, CHR 0xD1, CHR 0x83, CHR 0xD0,
      CHR 0xB7, CHR 0xD0, CHR 0xBA, CHR 0xD0, CHR 0xB8, CHR 0x20, CHR 0xD0, CHR 0xB4,
      CHR 0xD0, CHR 0xB0, CHR 0xD0, CHR 0xBD, CHR 0xD0, CHR 0xBD, CHR 0xD1, CHR 0x8B,
      CHR 0xD1, CHR 0x85, CHR 0x3A, CHR 0x20]"

fun showNat :: "nat \<Rightarrow> string" where
  \<comment> \<open>a non-negative integer converted to a string, as \<open>'HTTP ' + response.status\<close> does\<close>
  "showNat n =
     (if n < 10 then [char_of (48 + n)]
      else showNat (n div 10) @ [char_of (48 + n mod 10)])"

declare showNat.simps [simp del]

definition replaceAll :: "char \<Rightarrow> string \<Rightarrow> string \<Rightarrow> string" where
  \<comment> \<open>\<open>s.replace(/c/g, r)\<close> for a one-character pattern \<open>c\<close>\<close>
  "replaceAll c r s = concat (map (\<lambda>x. if x = c then r else [x]) s)"

definition escapeHtml :: "string \<Rightarrow> string" where
  "escapeHtml str =
     replaceAll (CHR 0x27) ''&#039;''
       (replaceAll (CHR 0x22) ''&quot;''
         (replaceAll CHR ''>'' ''&gt;''
           (replaceAll CHR ''<'' ''&lt;''
             (replaceAll CHR ''&'' ''&amp;'' str))))"

section \<open>The dataset\<close>

record "structure" =
  type :: string
  formula :: "string option"

record voices =
  active :: "structure list option"
  "passive" :: "structure list option"

record aspect =
  name :: string
  description :: "string option"
  markers :: "string list option"
  structures :: "voices option"

record tense =
  time :: string
  aspects :: "aspect list"

record dataset =
  tenses :: "tense list"

definition getVoice :: "voices \<Rightarrow> string \<Rightarrow> structure list option" where
  \<comment> \<open>the property read \<open>aspect.structures[voiceKey]\<close>\<close>
  "getVoice vs voiceKey =
     (if voiceKey = ''active'' then active vs
      else if voiceKey = ''passive'' then passive vs
      else None)"

section \<open>The document\<close>

text \<open>
  A node of the document tree. \<open>Markup s\<close> stands for the nodes that the browser builds from
  the markup \<open>s\<close> assigned to \<open>innerHTML\<close>; the markup is kept as the program wrote it.
\<close>

datatype node =
    Text string
  | Markup string
  | Element string string "node list"

definition createElement :: "string \<Rightarrow> node" where
  "createElement tag = Element tag [] []"

fun setClassName :: "string \<Rightarrow> node \<Rightarrow> node" where
  "setClassName c (Element t _ ks) = Element t c ks"
| "setClassName c n = n"

fun setTextContent :: "string \<Rightarrow> node \<Rightarrow> node" where
  \<comment> \<open>replaces the children by one text node, or by nothing for the empty string\<close>
  "setTextContent s (Element t c _) = Element t c (if s = [] then [] else [Text s])"
| "setTextContent s n = n"

fun setInnerHTML :: "string \<Rightarrow> node \<Rightarrow> node" where
  "setInnerHTML s (Element t c _) = Element t c (if s = [] then [] else [Markup s])"
| "setInnerHTML s n = n"

fun appendChild :: "node \<Rightarrow> node \<Rightarrow> node" where
  "appendChild (Element t c ks) k = Element t c (ks @ [k])"
| "appendChild n k = n"

section \<open>Rendering one cell\<close>

text \<open>
  The object that \<open>indexByType\<close> fills is a plain object, written \<open>{}\<close>: it has its own
  properties, and a prototype, which is \<open>Object.prototype\<close> until an assignment to the key
  \<open>__proto__\<close> makes the assigned structure the prototype. Such an assignment adds no own
  property; an assignment to any other key adds or overrides an own property. Reading a key
  gives the own property of that name, else the field of that name of the structure that is the
  prototype, else the member of that name of \<open>Object.prototype\<close>, else \<open>undefined\<close>; reading
  \<open>__proto__\<close> gives the prototype. A structure has the fields \<open>type\<close> and, when present,
  \<open>formula\<close>.
\<close>

datatype js_value =
    Undefined
  | Struct "structure"
  | Str string
  | Inherited string
  | ObjectPrototype

record js_object =
  own :: "string \<rightharpoonup> structure"
  proto :: "structure option"

definition objectPrototypeNames :: "string list" where
  \<comment> \<open>the function members of \<open>Object.prototype\<close>\<close>
  "objectPrototypeNames =
     [''constructor'', ''hasOwnProperty'', ''isPrototypeOf'', ''propertyIsEnumerable'',
      ''toLocaleString'', ''toString'', ''valueOf'', ''__defineGetter__'', ''__defineSetter__'',
      ''__lookupGetter__'', ''__lookupSetter__'']"

definition emptyObject :: js_object where
  \<comment> \<open>the literal \<open>{}\<close>\<close>
  "emptyObject = \<lparr>own = Map.empty, proto = None\<rparr>"

definition setProp :: "js_object \<Rightarrow> string \<Rightarrow> structure \<Rightarrow> js_object" where
  \<comment> \<open>the assignment \<open>map[k] = s\<close> of a structure\<close>
  "setProp obj k s =
     (if k = ''__proto__'' then obj\<lparr>proto := Some s\<rparr>
      else obj\<lparr>own := (own obj)(k \<mapsto> s)\<rparr>)"

definition fieldOf :: "structure \<Rightarrow> string \<Rightarrow> string option" where
  \<comment> \<open>the own property \<open>k\<close> of a structure\<close>
  "fieldOf s k =
     (if k = ''type'' then Some (type s)
      else if k = ''formula'' then formula s
      else None)"

definition getProp :: "js_object \<Rightarrow> string \<Rightarrow> js_value" where
  \<comment> \<open>the property read \<open>map[k]\<close>\<close>
  "getProp obj k =
     (case own obj k of
        Some s \<Rightarrow> Struct s
      | None \<Rightarrow>
          (case (case proto obj of None \<Rightarrow> None | Some p \<Rightarrow> fieldOf p k) of
             Some v \<Rightarrow> Str v
           | None \<Rightarrow>
               if k = ''__proto__''
               then (case proto obj of None \<Rightarrow> ObjectPrototype | Some p \<Rightarrow> Struct p)
               else if k \<in> set objectPrototypeNames then Inherited k
               else Undefined))"

definition indexByType :: "structure list \<Rightarrow> js_object" where
  "indexByType ss = fold (\<lambda>s m. setProp m (type s) s) ss emptyObject"

definition asEntry :: "js_value \<Rightarrow> structure option" where
  \<comment> \<open>a value as \<open>renderFormula\<close> sees it: it reads \<open>entry.formula\<close> only, which a string, a
      function and \<open>Object.prototype\<close> do not have, as \<open>undefined\<close> does not\<close>
  "asEntry v = (case v of Struct s \<Rightarrow> Some s | _ \<Rightarrow> None)"

definition mutedSpan :: string where
  "mutedSpan = ''<span class=\"muted\">'' @ emDash @ ''</span>''"

definition renderFormula :: "structure option \<Rightarrow> string \<Rightarrow> string" where
  "renderFormula entry ty =
     (case entry of
        None \<Rightarrow> mutedSpan
      | Some e \<Rightarrow>
          (case formula e of
             None \<Rightarrow> mutedSpan
           | Some f \<Rightarrow>
               if f = [] then mutedSpan
               else
                 (let typeClass = (if ty \<noteq> [] then '' formula--'' @ ty else [])
                  in ''<div class=\"formula'' @ typeClass @ ''\">'' @ escapeHtml f @ ''</div>'')))"

definition renderMarkers :: "string list \<Rightarrow> node" where
  "renderMarkers ms =
     (let wrapper = setClassName ''markers'' (createElement ''div'');
          wrapper = fold (\<lambda>m w.
                      appendChild w
                        (setTextContent m (setClassName ''marker-chip'' (createElement ''span''))))
                      ms wrapper
      in if length ms = 0
         then appendChild wrapper
                (setTextContent emDash (setClassName ''muted'' (createElement ''span'')))
         else wrapper)"

definition structuresFor :: "aspect \<Rightarrow> string \<Rightarrow> structure list" where
  \<comment> \<open>\<open>(aspect.structures && aspect.structures[voiceKey]) || []\<close>\<close>
  "structuresFor a voiceKey =
     (case structures a of
        None \<Rightarrow> []
      | Some vs \<Rightarrow> (case getVoice vs voiceKey of None \<Rightarrow> [] | Some ss \<Rightarrow> ss))"

definition formulaBlock :: "js_object \<Rightarrow> string \<Rightarrow> string \<Rightarrow> node" where
  \<comment> \<open>one of the three blocks \<open>aff\<close>, \<open>neg\<close>, \<open>q\<close> of \<open>renderCellContent\<close>\<close>
  "formulaBlock byType key ty =
     setInnerHTML (renderFormula (asEntry (getProp byType key)) ty)
       (setClassName ''cell-block'' (createElement ''div''))"

definition renderCellContent :: "aspect option \<Rightarrow> string \<Rightarrow> node" where
  "renderCellContent aspect voiceKey =
     (let wrapper = setClassName ''cell-content'' (createElement ''div'')
      in case aspect of
           None \<Rightarrow>
             appendChild wrapper
               (setTextContent emDash (setClassName ''muted'' (createElement ''span'')))
         | Some a \<Rightarrow>
             (let wrapper =
                    (case description a of
                       None \<Rightarrow> wrapper
                     | Some d \<Rightarrow>
                         if d = [] then wrapper
                         else appendChild wrapper
                                (setTextContent d
                                  (setClassName ''cell-desc'' (createElement ''div''))));
                  byType = indexByType (structuresFor a voiceKey);
                  wrapper = appendChild wrapper (formulaBlock byType ''Affirmative'' ''aff'');
                  wrapper = appendChild wrapper (formulaBlock byType ''Negative'' ''neg'');
                  wrapper = appendChild wrapper (formulaBlock byType ''Question'' ''q'');
                  markersBlock =
                    appendChild (setClassName ''cell-block'' (createElement ''div''))
                      (renderMarkers (case markers a of None \<Rightarrow> [] | Some ms \<Rightarrow> ms))
              in appendChild wrapper markersBlock))"

section \<open>Rendering the table\<close>

text \<open>
  The two source files differ in the first cell of a row and in the voice controls; all the
  functions above are the same text in both.
\<close>

datatype variant = AppJs | Part000

definition renderTimeCell :: "string \<Rightarrow> node" where
  \<comment> \<open>only in the second file\<close>
  "renderTimeCell timeName =
     (let wrapper = setClassName ''cell-content'' (createElement ''div'');
          title = setTextContent timeName (setClassName ''time-name'' (createElement ''div''))
      in appendChild wrapper title)"

fun tdTime :: "variant \<Rightarrow> string \<Rightarrow> node" where
  "tdTime AppJs t =
     setInnerHTML (''<div class=\"time-name\">'' @ escapeHtml t @ ''</div>'') (createElement ''td'')"
| "tdTime Part000 t = appendChild (createElement ''td'') (renderTimeCell t)"

definition columnOrder :: "string list" where
  "columnOrder = [''Simple'', ''Continuous'', ''Perfect'', ''Perfect Continuous'']"

definition nameToAspect :: "aspect list \<Rightarrow> (string \<rightharpoonup> aspect)" where
  \<comment> \<open>the inner loop of \<open>render\<close> that fills \<open>nameToAspect\<close>, as the finite map of its own
      properties: \<open>render\<close> reads it at the four column names only, none of which is inherited\<close>
  "nameToAspect as = fold (\<lambda>a m. m(name a \<mapsto> a)) as Map.empty"

definition renderRow :: "variant \<Rightarrow> string \<Rightarrow> tense \<Rightarrow> node" where
  \<comment> \<open>the body of the loop over \<open>state.data.tenses\<close>\<close>
  "renderRow v voiceKey t =
     (let row = appendChild (createElement ''tr'') (tdTime v (time t));
          byName = nameToAspect (aspects t)
      in fold (\<lambda>aspectName r.
                 appendChild r
                   (appendChild (createElement ''td'')
                      (renderCellContent (byName aspectName) voiceKey)))
           columnOrder row)"

section \<open>The page\<close>

record js_error =
  errName :: string
  message :: string

record request =
  url :: string
  cache :: string

record response =
  ok :: bool
  status :: nat
  json :: "js_error + dataset option"

text \<open>
  The state of the page: the two fields of \<open>state\<close>, and the parts of the document the program
  reads or writes. \<open>tbody\<close> holds the rows of the table body, or \<open>None\<close> when the table has no
  body element; \<open>requests\<close> records the calls of \<open>fetch\<close>. A parsed document is a dataset, or
  \<open>None\<close> for JSON \<open>null\<close>.
\<close>

record page =
  voice :: string
  data :: "dataset option"
  checked :: bool
  isActive :: bool
  isPassive :: bool
  errorHidden :: bool
  errorText :: string
  tbody :: "node list option"
  requests :: "request list"

definition render :: "variant \<Rightarrow> page \<Rightarrow> page" where
  "render v pg =
     (case data pg of
        None \<Rightarrow> pg
      | Some d \<Rightarrow>
          (case tbody pg of
             None \<Rightarrow> pg
           | Some _ \<Rightarrow>
               pg\<lparr>tbody :=
                    Some (fold (\<lambda>t rows. rows @ [renderRow v (voice pg) t]) (tenses d) [])\<rparr>))"

definition updateToggleState :: "page \<Rightarrow> page" where
  \<comment> \<open>first file: the classes follow the checkbox\<close>
  "updateToggleState pg = pg\<lparr>isActive := \<not> checked pg, isPassive := checked pg\<rparr>"

definition updateControlsState :: "page \<Rightarrow> page" where
  \<comment> \<open>second file: the classes follow \<open>state.voice\<close>\<close>
  "updateControlsState pg =
     pg\<lparr>isActive := (voice pg = ''active''), isPassive := (voice pg = ''passive'')\<rparr>"

fun updateState :: "variant \<Rightarrow> page \<Rightarrow> page" where
  "updateState AppJs pg = updateToggleState pg"
| "updateState Part000 pg = updateControlsState pg"

definition errorToString :: "js_error \<Rightarrow> string" where
  \<comment> \<open>\<open>String(err)\<close> for an error object\<close>
  "errorToString err =
     (if errName err = [] then message err
      else if message err = [] then errName err
      else errName err @ '': '' @ message err)"

definition showError :: "js_error \<Rightarrow> page \<Rightarrow> page" where
  "showError err pg =
     pg\<lparr>errorHidden := False,
        errorText := errorPrefix @ (if message err \<noteq> [] then message err else errorToString err)\<rparr>"

definition loadData :: "(request \<Rightarrow> js_error + response) \<Rightarrow> request \<times> (js_error + dataset option)" where
  \<comment> \<open>the request made, and what the returned promise settles to\<close>
  "loadData fetch =
     (let req = \<lparr>url = DATA_FILE, cache = ''no-store''\<rparr>
      in (req,
          case fetch req of
            Inl err \<Rightarrow> Inl err
          | Inr resp \<Rightarrow>
              if \<not> ok resp
              then Inl \<lparr>errName = ''Error'',
                        message = ''HTTP '' @ showNat (status resp) @ '' while fetching '' @ DATA_FILE\<rparr>
              else json resp))"

datatype event = Change bool | ClickActive | ClickPassive

fun handle :: "variant \<Rightarrow> event \<Rightarrow> page \<Rightarrow> page" where
  \<comment> \<open>the listeners; \<open>Change b\<close> is the change event of the checkbox, now in state \<open>b\<close>\<close>
  "handle AppJs (Change b) pg =
     (let pg = pg\<lparr>checked := b\<rparr>;
          pg = pg\<lparr>voice := (if checked pg then ''passive'' else ''active'')\<rparr>
      in render AppJs (updateToggleState pg))"
| "handle Part000 ClickActive pg =
     render Part000 (updateControlsState (pg\<lparr>voice := ''active''\<rparr>))"
| "handle Part000 ClickPassive pg =
     render Part000 (updateControlsState (pg\<lparr>voice := ''passive''\<rparr>))"
| "handle _ _ pg = pg"

definition settle :: "variant \<Rightarrow> js_error + dataset option \<Rightarrow> page \<Rightarrow> page" where
  \<comment> \<open>the callbacks of \<open>then\<close> and \<open>catch\<close> on the promise of \<open>loadData\<close>\<close>
  "settle v result pg =
     (case result of
        Inr d \<Rightarrow> render v (pg\<lparr>data := d\<rparr>)
      | Inl err \<Rightarrow> showError err pg)"

definition init :: "variant \<Rightarrow> bool \<Rightarrow> (request \<Rightarrow> js_error + response) \<Rightarrow> page
    \<Rightarrow> (page \<times> (js_error + dataset option)) option" where
  \<comment> \<open>the synchronous part of \<open>init\<close>; \<open>found\<close> says that all elements were found\<close>
  "init v found fetch pg =
     (if \<not> found then None
      else
        (let pg = pg\<lparr>voice := ''active'', data := None\<rparr>;
             pg = updateState v pg;
             (req, result) = loadData fetch
         in Some (pg\<lparr>requests := requests pg @ [req]\<rparr>, result)))"

definition session :: "variant \<Rightarrow> bool \<Rightarrow> (request \<Rightarrow> js_error + response)
    \<Rightarrow> event list \<Rightarrow> event list \<Rightarrow> page \<Rightarrow> page" where
  \<comment> \<open>a run of the page: start, events before the promise settles, the settling, events after\<close>
  "session v found fetch before after pg =
     (case init v found fetch pg of
        None \<Rightarrow> pg
      | Some (pg1, result) \<Rightarrow>
          fold (handle v) after (settle v result (fold (handle v) before pg1)))"

section \<open>Definitions used in the statements\<close>

text \<open>What the specification says of \<open>escapeHtml\<close>: each special character becomes its entity.\<close>

definition entityOf :: "char \<Rightarrow> string" where
  "entityOf c =
     (if c = CHR ''&'' then ''&amp;''
      else if c = CHR ''<'' then ''&lt;''
      else if c = CHR ''>'' then ''&gt;''
      else if c = CHR 0x22 then ''&quot;''
      else if c = CHR 0x27 then ''&#039;''
      else [c])"

text \<open>Reading the five character references back, as a reader of the markup does.\<close>

fun decodeEntities :: "string \<Rightarrow> string" where
  "decodeEntities [] = []"
| "decodeEntities (c # cs) =
     (if c = CHR ''&'' \<and> take 4 cs = ''amp;'' then CHR ''&'' # decodeEntities (drop 4 cs)
      else if c = CHR ''&'' \<and> take 3 cs = ''lt;'' then CHR ''<'' # decodeEntities (drop 3 cs)
      else if c = CHR ''&'' \<and> take 3 cs = ''gt;'' then CHR ''>'' # decodeEntities (drop 3 cs)
      else if c = CHR ''&'' \<and> take 5 cs = ''quot;'' then CHR 0x22 # decodeEntities (drop 5 cs)
      else if c = CHR ''&'' \<and> take 5 cs = ''#039;'' then CHR 0x27 # decodeEntities (drop 5 cs)
      else c # decodeEntities cs)"

text \<open>
  A table with the markup of every formula block blanked: two tables with the same image differ
  at most in the markup of their formula blocks.
\<close>

fun eraseFormulas :: "node \<Rightarrow> node" where
  "eraseFormulas (Text s) = Text s"
| "eraseFormulas (Markup s) = Markup s"
| "eraseFormulas (Element t c ks) =
     (if t = ''div'' \<and> c = ''cell-block'' \<and> (case ks of [Markup s] \<Rightarrow> True | _ \<Rightarrow> False)
      then Element t c [Markup []]
      else Element t c (map eraseFormulas ks))"

fun childNodes :: "node \<Rightarrow> node list" where
  "childNodes (Element t c ks) = ks"
| "childNodes n = []"

text \<open>The voice an event selects, for the events a variant listens to.\<close>

fun selects :: "variant \<Rightarrow> event \<Rightarrow> string option" where
  "selects AppJs (Change b) = Some (if b then ''passive'' else ''active'')"
| "selects Part000 ClickActive = Some ''active''"
| "selects Part000 ClickPassive = Some ''passive''"
| "selects _ _ = None"

text \<open>The operations that run after the dataset is stored.\<close>

datatype operation = Render | Select event

fun perform :: "variant \<Rightarrow> operation \<Rightarrow> page \<Rightarrow> page" where
  "perform v Render pg = render v pg"
| "perform v (Select ev) pg = handle v ev pg"

text \<open>The page when the synchronous part of \<open>init\<close> has run.\<close>

definition started :: "variant \<Rightarrow> (request \<Rightarrow> js_error + response) \<Rightarrow> page \<Rightarrow> page" where
  "started v fetch pg =
     (updateState v (pg\<lparr>voice := ''active'', data := None\<rparr>))
       \<lparr>requests := requests pg @ [fst (loadData fetch)]\<rparr>"

text \<open>A small dataset and a page, for the concrete instances.\<close>

definition exAspect :: aspect where
  "exAspect =
     \<lparr>name = ''Simple'', description = Some ''Facts'', markers = Some [''always'', ''often''],
      structures =
        Some \<lparr>active = Some [\<lparr>type = ''Affirmative'', formula = Some ''S + V''\<rparr>,
                              \<lparr>type = ''Question'', formula = None\<rparr>],
              passive = Some [\<lparr>type = ''Affirmative'', formula = Some ''S + is + V3''\<rparr>]\<rparr>\<rparr>"

definition exBare :: aspect where
  "exBare = \<lparr>name = ''Perfect'', description = None, markers = None, structures = None\<rparr>"

definition exDataset :: dataset where
  "exDataset =
     \<lparr>tenses = [\<lparr>time = ''Present'', aspects = [exAspect, exBare]\<rparr>,
                \<lparr>time = ''Past & <gone>'', aspects = []\<rparr>]\<rparr>"

definition exPage :: page where
  "exPage =
     \<lparr>voice = ''active'', data = None, checked = False, isActive = False, isPassive = False,
      errorHidden = True, errorText = [], tbody = Some [], requests = []\<rparr>"

section \<open>Auxiliary facts\<close>

lemma find_snoc:
  "find P (xs @ [x]) = (case find P xs of None \<Rightarrow> (if P x then Some x else None) | Some y \<Rightarrow> Some y)"
  by (induction xs) auto

lemma fold_update_find:
  "fold (\<lambda>x m. m(key x \<mapsto> x)) xs m0 k =
     (case find (\<lambda>x. key x = k) (rev xs) of None \<Rightarrow> m0 k | Some y \<Rightarrow> Some y)"
  by (induction xs arbitrary: m0) (auto simp: find_snoc split: option.splits)


lemma fold_snoc_map: "fold (\<lambda>x acc. acc @ [f x]) xs ys = ys @ map f xs"
  by (induction xs arbitrary: ys) auto

lemma replaceAll_Nil: "replaceAll c r [] = []"
  by (simp add: replaceAll_def)

lemma replaceAll_append: "replaceAll c r (xs @ ys) = replaceAll c r xs @ replaceAll c r ys"
  by (simp add: replaceAll_def)

lemma replaceAll_Cons: "replaceAll c r (x # xs) = (if x = c then r else [x]) @ replaceAll c r xs"
  by (simp add: replaceAll_def)

lemma escapeHtml_Nil: "escapeHtml [] = []"
  by (simp add: escapeHtml_def replaceAll_Nil)

lemma escapeHtml_Cons: "escapeHtml (x # xs) = entityOf x @ escapeHtml xs"
  by (simp add: escapeHtml_def entityOf_def replaceAll_Cons replaceAll_append replaceAll_Nil)

lemma escapeHtml_concat: "escapeHtml s = concat (map entityOf s)"
  by (induction s) (simp_all add: escapeHtml_Nil escapeHtml_Cons)

lemma entityOf_no_special:
  "c \<in> set (entityOf x) \<Longrightarrow> c \<noteq> CHR ''<'' \<and> c \<noteq> CHR ''>'' \<and> c \<noteq> CHR 0x22 \<and> c \<noteq> CHR 0x27"
  by (auto simp: entityOf_def split: if_splits)


lemma decodeEntities_entityOf: "decodeEntities (entityOf x @ rest) = x # decodeEntities rest"
proof -
  consider "x = CHR ''&''" | "x = CHR ''<''" | "x = CHR ''>''" | "x = CHR 0x22" | "x = CHR 0x27"
    | "x \<noteq> CHR ''&''" "x \<noteq> CHR ''<''" "x \<noteq> CHR ''>''" "x \<noteq> CHR 0x22" "x \<noteq> CHR 0x27"
    by blast
  then show ?thesis
    by cases (simp_all add: entityOf_def)
qed

lemma decodeEntities_escapeHtml: "decodeEntities (escapeHtml s) = s"
proof (induction s)
  case Nil
  show ?case by (simp add: escapeHtml_Nil)
next
  case (Cons x xs)
  then show ?case by (simp only: escapeHtml_Cons decodeEntities_entityOf)
qed

lemma escapeHtml_no_special:
  "c \<in> set (escapeHtml s) \<Longrightarrow> c \<noteq> CHR ''<'' \<and> c \<noteq> CHR ''>'' \<and> c \<noteq> CHR 0x22 \<and> c \<noteq> CHR 0x27"
  unfolding escapeHtml_concat using entityOf_no_special by auto

lemma renderFormula_present:
  "formula e = Some f \<Longrightarrow> f \<noteq> [] \<Longrightarrow>
   renderFormula (Some e) ty =
     ''<div class=\"formula'' @ (if ty = [] then [] else '' formula--'' @ ty) @ ''\">''
       @ escapeHtml f @ ''</div>''"
  by (simp add: renderFormula_def)

lemma find_Some_mem: "find P xs = Some y \<Longrightarrow> P y \<and> y \<in> set xs"
  by (induction xs) (auto split: if_splits)

lemma emDash_nonempty: "emDash \<noteq> []"
  by (simp add: emDash_def)

lemma renderFormula_nonempty: "renderFormula e ty \<noteq> []"
  by (simp add: renderFormula_def mutedSpan_def split: option.splits)


lemma formulaBlock_eq:
  "formulaBlock byType key ty =
     Element ''div'' ''cell-block'' [Markup (renderFormula (asEntry (getProp byType key)) ty)]"
  by (simp add: formulaBlock_def createElement_def renderFormula_nonempty)

lemma renderCellContent_None:
  "renderCellContent None vk = Element ''div'' ''cell-content'' [Element ''span'' ''muted'' [Text emDash]]"
  by (simp add: renderCellContent_def createElement_def emDash_nonempty)

lemma fold_setProp_own:
  "own (fold (\<lambda>s m. setProp m (type s) s) ss m0) k =
     (if k = ''__proto__'' then own m0 k
      else (case find (\<lambda>s. type s = k) (rev ss) of None \<Rightarrow> own m0 k | Some y \<Rightarrow> Some y))"
  by (induction ss arbitrary: m0) (auto simp: setProp_def find_snoc split: option.splits)

lemma fold_setProp_proto:
  "proto (fold (\<lambda>s m. setProp m (type s) s) ss m0) =
     (case find (\<lambda>s. type s = ''__proto__'') (rev ss) of None \<Rightarrow> proto m0 | Some y \<Rightarrow> Some y)"
  by (induction ss arbitrary: m0) (auto simp: setProp_def find_snoc split: option.splits)

lemma indexByType_own:
  "own (indexByType ss) k =
     (if k = ''__proto__'' then None else find (\<lambda>s. type s = k) (rev ss))"
  by (simp add: indexByType_def fold_setProp_own emptyObject_def split: option.splits)

lemma indexByType_proto: "proto (indexByType ss) = find (\<lambda>s. type s = ''__proto__'') (rev ss)"
  by (simp add: indexByType_def fold_setProp_proto emptyObject_def split: option.splits)

lemma getProp_found:
  assumes "find (\<lambda>s. type s = k) (rev ss) = Some s"
  shows "getProp (indexByType ss) k = Struct s"
proof (cases "k = ''__proto__''")
  case True
  with assms have "find (\<lambda>s. type s = ''__proto__'') (rev ss) = Some s" by simp
  then show ?thesis
    by (simp add: True getProp_def indexByType_own indexByType_proto fieldOf_def)
next
  case False
  with assms show ?thesis
    by (simp add: getProp_def indexByType_own)
qed

lemma asEntry_getProp:
  "asEntry (getProp obj k) =
     (case own obj k of
        Some s \<Rightarrow> Some s
      | None \<Rightarrow> if k = ''__proto__'' then proto obj else None)"
  by (simp add: getProp_def asEntry_def fieldOf_def split: option.splits)

lemma find_type_None: "find (\<lambda>s. type s = k) (rev ss) = None \<longleftrightarrow> k \<notin> type ` set ss"
  by (auto simp: find_None_iff)

lemma indexByType_find: "asEntry (getProp (indexByType ss) k) = find (\<lambda>s. type s = k) (rev ss)"
  by (simp add: asEntry_getProp indexByType_own indexByType_proto split: option.splits)

lemma nameToAspect_find: "nameToAspect as n = find (\<lambda>a. name a = n) (rev as)"
  by (simp add: nameToAspect_def fold_update_find split: option.splits)

lemma renderCellContent_Some:
  "renderCellContent (Some a) vk =
     Element ''div'' ''cell-content''
       ((case description a of
           None \<Rightarrow> []
         | Some d \<Rightarrow> if d = [] then [] else [Element ''div'' ''cell-desc'' [Text d]])
        @ [Element ''div'' ''cell-block''
             [Markup (renderFormula (asEntry (getProp (indexByType (structuresFor a vk)) ''Affirmative'')) ''aff'')],
           Element ''div'' ''cell-block''
             [Markup (renderFormula (asEntry (getProp (indexByType (structuresFor a vk)) ''Negative'')) ''neg'')],
           Element ''div'' ''cell-block''
             [Markup (renderFormula (asEntry (getProp (indexByType (structuresFor a vk)) ''Question'')) ''q'')],
           Element ''div'' ''cell-block''
             [renderMarkers (case markers a of None \<Rightarrow> [] | Some ms \<Rightarrow> ms)]])"
  by (simp add: renderCellContent_def createElement_def formulaBlock_eq Let_def split: option.splits)

lemma renderRow_eq:
  "renderRow v vk t =
     Element ''tr'' []
       (tdTime v (time t)
        # map (\<lambda>n. Element ''td'' [] [renderCellContent (nameToAspect (aspects t) n) vk])
            [''Simple'', ''Continuous'', ''Perfect'', ''Perfect Continuous''])"
  by (simp add: renderRow_def createElement_def columnOrder_def Let_def)

lemma tdTime_AppJs:
  "tdTime AppJs t = Element ''td'' [] [Markup (''<div class=\"time-name\">'' @ escapeHtml t @ ''</div>'')]"
  by (simp add: createElement_def)

lemma tdTime_Part000:
  "tdTime Part000 t =
     Element ''td'' []
       [Element ''div'' ''cell-content'' [Element ''div'' ''time-name'' (if t = [] then [] else [Text t])]]"
  by (simp add: createElement_def renderTimeCell_def)

declare tdTime.simps [simp del]

lemma render_tbody:
  "tbody (render v pg) =
     (case data pg of
        None \<Rightarrow> tbody pg
      | Some d \<Rightarrow>
          (case tbody pg of
             None \<Rightarrow> None
           | Some old \<Rightarrow> Some (map (renderRow v (voice pg)) (tenses d))))"
  by (simp add: render_def fold_snoc_map split: option.splits)

lemma render_frame:
  "voice (render v pg) = voice pg" "data (render v pg) = data pg"
  "checked (render v pg) = checked pg" "isActive (render v pg) = isActive pg"
  "isPassive (render v pg) = isPassive pg" "errorHidden (render v pg) = errorHidden pg"
  "errorText (render v pg) = errorText pg" "requests (render v pg) = requests pg"
  by (simp_all add: render_def split: option.splits)

lemma eraseFormulas_cell:
  "eraseFormulas (renderCellContent x vk) = eraseFormulas (renderCellContent x vk')"
  by (cases x) (simp_all add: renderCellContent_None renderCellContent_Some)

lemma eraseFormulas_row:
  "eraseFormulas (renderRow v vk t) = eraseFormulas (renderRow v vk' t)"
  by (simp add: renderRow_eq eraseFormulas_cell [of _ vk vk'])

lemma renderCellContent_same_structures:
  "structuresFor a vk = structuresFor a vk' \<Longrightarrow>
   renderCellContent (Some a) vk = renderCellContent (Some a) vk'"
  by (simp add: renderCellContent_Some)

lemma structuresFor_absent: "structures a = None \<Longrightarrow> structuresFor a vk = []"
  by (simp add: structuresFor_def)

lemma handle_frame:
  "data (handle v ev pg) = data pg" "errorHidden (handle v ev pg) = errorHidden pg"
  "errorText (handle v ev pg) = errorText pg" "requests (handle v ev pg) = requests pg"
  by (cases v; cases ev;
      simp add: render_frame updateToggleState_def updateControlsState_def Let_def)+

lemma handle_tbody_no_data: "data pg = None \<Longrightarrow> tbody (handle v ev pg) = tbody pg"
  by (cases v; cases ev;
      simp add: render_tbody updateToggleState_def updateControlsState_def Let_def)

lemma handle_voice:
  "voice pg \<in> {''active'', ''passive''} \<Longrightarrow> voice (handle v ev pg) \<in> {''active'', ''passive''}"
  by (cases v; cases ev;
      simp add: render_frame updateToggleState_def updateControlsState_def Let_def)

lemma fold_handle_frame:
  "data (fold (handle v) evs pg) = data pg"
  "errorHidden (fold (handle v) evs pg) = errorHidden pg"
  "errorText (fold (handle v) evs pg) = errorText pg"
  "requests (fold (handle v) evs pg) = requests pg"
  by (induction evs arbitrary: pg) (simp_all add: handle_frame)

lemma fold_handle_tbody_no_data:
  "data pg = None \<Longrightarrow> tbody (fold (handle v) evs pg) = tbody pg"
  by (induction evs arbitrary: pg) (simp_all add: handle_frame handle_tbody_no_data)

lemma fold_handle_voice:
  "voice pg \<in> {''active'', ''passive''} \<Longrightarrow>
   voice (fold (handle v) evs pg) \<in> {''active'', ''passive''}"
proof (induction evs arbitrary: pg)
  case Nil
  then show ?case by simp
next
  case (Cons ev evs)
  from Cons.prems have "voice (handle v ev pg) \<in> {''active'', ''passive''}"
    by (rule handle_voice)
  then show ?case using Cons.IH by simp
qed

lemma loadData_request: "fst (loadData fetch) = \<lparr>url = ''./time-tenses.json'', cache = ''no-store''\<rparr>"
  by (simp add: loadData_def DATA_FILE_def Let_def)

lemma updateState_frame:
  "voice (updateState v pg) = voice pg" "data (updateState v pg) = data pg"
  "errorHidden (updateState v pg) = errorHidden pg" "errorText (updateState v pg) = errorText pg"
  "tbody (updateState v pg) = tbody pg" "requests (updateState v pg) = requests pg"
  by (cases v; simp add: updateToggleState_def updateControlsState_def)+

lemma init_found: "init v True fetch pg = Some (started v fetch pg, snd (loadData fetch))"
  by (simp add: init_def started_def Let_def updateState_frame split: prod.splits)

lemma started_frame:
  "voice (started v fetch pg) = ''active''" "data (started v fetch pg) = None"
  "errorHidden (started v fetch pg) = errorHidden pg" "errorText (started v fetch pg) = errorText pg"
  "tbody (started v fetch pg) = tbody pg"
  "requests (started v fetch pg) = requests pg @ [fst (loadData fetch)]"
  by (simp_all add: started_def updateState_frame)

lemma session_found:
  "session v True fetch before after pg =
     fold (handle v) after
       (settle v (snd (loadData fetch)) (fold (handle v) before (started v fetch pg)))"
  by (simp add: session_def init_found)

lemma settle_frame:
  "requests (settle v r pg) = requests pg" "voice (settle v r pg) = voice pg"
  by (cases r; simp add: settle_def showError_def render_frame)+

lemma settle_failed:
  "errorHidden (settle v (Inl err) pg) = False"
  "errorText (settle v (Inl err) pg) =
     errorPrefix @ (if message err \<noteq> [] then message err else errorToString err)"
  "tbody (settle v (Inl err) pg) = tbody pg" "data (settle v (Inl err) pg) = data pg"
  by (simp_all add: settle_def showError_def)

lemma settle_loaded: "data (settle v (Inr d) pg) = d"
  by (simp add: settle_def render_frame)

lemma session_failed:
  assumes "snd (loadData fetch) = Inl err"
  shows "errorHidden (session v True fetch before after pg) = False"
    and "errorText (session v True fetch before after pg) =
           errorPrefix @ (if message err \<noteq> [] then message err else errorToString err)"
    and "tbody (session v True fetch before after pg) = tbody pg"
    and "data (session v True fetch before after pg) = None"
proof -
  let ?p1 = "fold (handle v) before (started v fetch pg)"
  let ?p2 = "settle v (Inl err) ?p1"
  have s: "session v True fetch before after pg = fold (handle v) after ?p2"
    by (simp add: session_found assms)
  have d1: "data ?p1 = None" by (simp add: fold_handle_frame started_frame)
  have d2: "data ?p2 = None" by (simp add: settle_failed d1)
  have t1: "tbody ?p1 = tbody pg"
    by (simp add: fold_handle_tbody_no_data started_frame)
  show "errorHidden (session v True fetch before after pg) = False"
    by (simp add: s fold_handle_frame settle_failed)
  show "errorText (session v True fetch before after pg) =
           errorPrefix @ (if message err \<noteq> [] then message err else errorToString err)"
    by (simp add: s fold_handle_frame settle_failed)
  show "tbody (session v True fetch before after pg) = tbody pg"
    by (simp add: s fold_handle_tbody_no_data [OF d2] settle_failed t1)
  show "data (session v True fetch before after pg) = None"
    by (simp add: s fold_handle_frame d2)
qed

lemma session_requests:
  "requests (session v True fetch before after pg) =
     requests pg @ [\<lparr>url = ''./time-tenses.json'', cache = ''no-store''\<rparr>]"
  by (simp add: session_found fold_handle_frame settle_frame started_frame loadData_request)

lemma session_voice:
  "voice (session v True fetch before after pg) \<in> {''active'', ''passive''}"
proof -
  have "voice (fold (handle v) before (started v fetch pg)) \<in> {''active'', ''passive''}"
    by (rule fold_handle_voice) (simp add: started_frame)
  then have "voice (settle v (snd (loadData fetch)) (fold (handle v) before (started v fetch pg)))
      \<in> {''active'', ''passive''}"
    by (simp only: settle_frame)
  then show ?thesis
    unfolding session_found by (rule fold_handle_voice)
qed

lemma errorPrefix_nonempty: "errorPrefix \<noteq> []"
  by (simp add: errorPrefix_def)

lemma loadData_not_ok:
  "fetch \<lparr>url = DATA_FILE, cache = ''no-store''\<rparr> = Inr r \<Longrightarrow> \<not> ok r \<Longrightarrow>
   snd (loadData fetch) =
     Inl \<lparr>errName = ''Error'',
          message = ''HTTP '' @ showNat (status r) @ '' while fetching '' @ DATA_FILE\<rparr>"
  by (simp add: loadData_def Let_def)

lemma loadData_ok:
  "fetch \<lparr>url = DATA_FILE, cache = ''no-store''\<rparr> = Inr r \<Longrightarrow> ok r \<Longrightarrow>
   snd (loadData fetch) = json r"
  by (simp add: loadData_def Let_def)

lemma loadData_fails:
  assumes "fetch \<lparr>url = DATA_FILE, cache = ''no-store''\<rparr> = Inl e
           \<or> (\<exists>r. fetch \<lparr>url = DATA_FILE, cache = ''no-store''\<rparr> = Inr r
                 \<and> (\<not> ok r \<or> (\<exists>e'. json r = Inl e')))"
  shows "\<exists>err. snd (loadData fetch) = Inl err"
  using assms by (auto simp: loadData_def Let_def)

lemma showNat_404: "showNat 404 = ''404''"
  by code_simp

lemma showNat_500: "showNat 500 = ''500''"
  by code_simp

lemma handle_Change:
  "handle AppJs (Change b) pg =
     render AppJs (pg\<lparr>checked := b, voice := (if b then ''passive'' else ''active''),
                      isActive := \<not> b, isPassive := b\<rparr>)"
  by (simp add: updateToggleState_def Let_def)

lemma handle_ClickActive:
  "handle Part000 ClickActive pg =
     render Part000 (pg\<lparr>voice := ''active'', isActive := True, isPassive := False\<rparr>)"
  by (simp add: updateControlsState_def)

lemma handle_ClickPassive:
  "handle Part000 ClickPassive pg =
     render Part000 (pg\<lparr>voice := ''passive'', isActive := False, isPassive := True\<rparr>)"
  by (simp add: updateControlsState_def)

lemma selects_cases:
  assumes "selects v ev = Some w"
  obtains b where "v = AppJs" "ev = Change b" "w = (if b then ''passive'' else ''active'')"
    | "v = Part000" "ev = ClickActive" "w = ''active''"
    | "v = Part000" "ev = ClickPassive" "w = ''passive''"
  using assms by (cases v; cases ev) auto

lemma handle_selects:
  assumes "selects v ev = Some w"
  shows "w \<in> {''active'', ''passive''}"
    and "voice (handle v ev pg) = w"
    and "isActive (handle v ev pg) = (w = ''active'')"
    and "isPassive (handle v ev pg) = (w = ''passive'')"
    and "tbody (handle v ev pg) =
           (case data pg of
              None \<Rightarrow> tbody pg
            | Some d \<Rightarrow>
                (case tbody pg of
                   None \<Rightarrow> None
                 | Some old \<Rightarrow> Some (map (renderRow v w) (tenses d))))"
proof -
  from assms have
    "w \<in> {''active'', ''passive''}
     \<and> voice (handle v ev pg) = w
     \<and> isActive (handle v ev pg) = (w = ''active'')
     \<and> isPassive (handle v ev pg) = (w = ''passive'')
     \<and> tbody (handle v ev pg) =
           (case data pg of
              None \<Rightarrow> tbody pg
            | Some d \<Rightarrow>
                (case tbody pg of
                   None \<Rightarrow> None
                 | Some old \<Rightarrow> Some (map (renderRow v w) (tenses d))))"
  proof (cases rule: selects_cases)
    case (1 b)
    then show ?thesis
      by (cases b) (simp_all add: handle_Change render_frame render_tbody split: option.splits del: handle.simps)
  next
    case 2
    then show ?thesis
      by (simp add: handle_ClickActive render_frame render_tbody split: option.splits del: handle.simps)
  next
    case 3
    then show ?thesis
      by (simp add: handle_ClickPassive render_frame render_tbody split: option.splits del: handle.simps)
  qed
  then show "w \<in> {''active'', ''passive''}"
    and "voice (handle v ev pg) = w"
    and "isActive (handle v ev pg) = (w = ''active'')"
    and "isPassive (handle v ev pg) = (w = ''passive'')"
    and "tbody (handle v ev pg) =
           (case data pg of
              None \<Rightarrow> tbody pg
            | Some d \<Rightarrow>
                (case tbody pg of
                   None \<Rightarrow> None
                 | Some old \<Rightarrow> Some (map (renderRow v w) (tenses d))))"
    by blast+
qed

lemma perform_data: "data (perform v op pg) = data pg"
  by (cases op) (simp_all add: render_frame handle_frame)

lemma fold_perform_data: "data (fold (perform v) ops pg) = data pg"
  by (induction ops arbitrary: pg) (simp_all add: perform_data)

section \<open>One row per tense\<close>

text \<open>
  C1. When a dataset is stored and the table has a body, \<open>render\<close> (of either file, for any
  voice) fills the body with exactly one row per tense, in the order of the dataset. Every row
  is the time cell followed by exactly four aspect cells, for Simple, Continuous, Perfect and
  Perfect Continuous in this order; the cell of a category shows the last aspect of the tense
  with that name, or no aspect.
\<close>

theorem render_one_row_per_tense:
  "data pg = Some d \<Longrightarrow> tbody pg = Some old \<Longrightarrow>
   \<exists>rows. tbody (render v pg) = Some rows \<and> length rows = length (tenses d) \<and>
     (\<forall>i < length (tenses d).
        rows ! i =
          Element ''tr'' []
            (tdTime v (time (tenses d ! i))
             # map (\<lambda>n. Element ''td'' []
                         [renderCellContent
                            (find (\<lambda>a. name a = n) (rev (aspects (tenses d ! i)))) (voice pg)])
                 [''Simple'', ''Continuous'', ''Perfect'', ''Perfect Continuous'']))"
proof -
  assume d: "data pg = Some d" and t: "tbody pg = Some old"
  let ?rows = "map (renderRow v (voice pg)) (tenses d)"
  have "tbody (render v pg) = Some ?rows"
    by (simp add: render_tbody d t)
  moreover have "length ?rows = length (tenses d)"
    by simp
  moreover have "\<forall>i < length (tenses d).
        ?rows ! i =
          Element ''tr'' []
            (tdTime v (time (tenses d ! i))
             # map (\<lambda>n. Element ''td'' []
                         [renderCellContent
                            (find (\<lambda>a. name a = n) (rev (aspects (tenses d ! i)))) (voice pg)])
                 [''Simple'', ''Continuous'', ''Perfect'', ''Perfect Continuous''])"
    by (simp add: renderRow_eq nameToAspect_find)
  ultimately show ?thesis by blast
qed

theorem render_one_row_per_tense_witness:
  "\<exists>rows. tbody (render AppJs (exPage\<lparr>data := Some exDataset\<rparr>)) = Some rows \<and> length rows = 2 \<and>
      rows ! 1 =
        Element ''tr'' []
          [Element ''td'' [] [Markup ''<div class=\"time-name\">Past &amp; &lt;gone&gt;</div>''],
           Element ''td'' [] [Element ''div'' ''cell-content'' [Element ''span'' ''muted'' [Text emDash]]],
           Element ''td'' [] [Element ''div'' ''cell-content'' [Element ''span'' ''muted'' [Text emDash]]],
           Element ''td'' [] [Element ''div'' ''cell-content'' [Element ''span'' ''muted'' [Text emDash]]],
           Element ''td'' [] [Element ''div'' ''cell-content'' [Element ''span'' ''muted'' [Text emDash]]]]"
proof -
  let ?pg = "exPage\<lparr>data := Some exDataset\<rparr>"
  have d: "data ?pg = Some exDataset" by simp
  have t: "tbody ?pg = Some []" by (simp add: exPage_def)
  from render_one_row_per_tense [OF d t, of AppJs]
  obtain rows where r: "tbody (render AppJs ?pg) = Some rows" "length rows = length (tenses exDataset)"
    and i: "\<forall>i < length (tenses exDataset).
        rows ! i =
          Element ''tr'' []
            (tdTime AppJs (time (tenses exDataset ! i))
             # map (\<lambda>n. Element ''td'' []
                         [renderCellContent
                            (find (\<lambda>a. name a = n) (rev (aspects (tenses exDataset ! i)))) (voice ?pg)])
                 [''Simple'', ''Continuous'', ''Perfect'', ''Perfect Continuous''])"
    by blast
  have l: "length (tenses exDataset) = 2" by (simp add: exDataset_def)
  have t1: "tenses exDataset ! 1 = \<lparr>time = ''Past & <gone>'', aspects = []\<rparr>"
    by (simp add: exDataset_def)
  from i l have "rows ! 1 =
          Element ''tr'' []
            (tdTime AppJs (time (tenses exDataset ! 1))
             # map (\<lambda>n. Element ''td'' []
                         [renderCellContent
                            (find (\<lambda>a. name a = n) (rev (aspects (tenses exDataset ! 1)))) (voice ?pg)])
                 [''Simple'', ''Continuous'', ''Perfect'', ''Perfect Continuous''])"
    by simp
  then have "rows ! 1 =
        Element ''tr'' []
          [Element ''td'' [] [Markup ''<div class=\"time-name\">Past &amp; &lt;gone&gt;</div>''],
           Element ''td'' [] [Element ''div'' ''cell-content'' [Element ''span'' ''muted'' [Text emDash]]],
           Element ''td'' [] [Element ''div'' ''cell-content'' [Element ''span'' ''muted'' [Text emDash]]],
           Element ''td'' [] [Element ''div'' ''cell-content'' [Element ''span'' ''muted'' [Text emDash]]],
           Element ''td'' [] [Element ''div'' ''cell-content'' [Element ''span'' ''muted'' [Text emDash]]]]"
    unfolding t1
    by (simp add: tdTime_AppJs renderCellContent_None escapeHtml_concat entityOf_def exPage_def)
  with r l show ?thesis by simp
qed

section \<open>A failed load\<close>

text \<open>
  C2. If the fetch is rejected, or the response is not a success, or its body does not parse,
  then whatever the user selects before and after the promise settles, the error region ends
  visible (\<open>hidden\<close> is false) and holds the prefix followed by the message of the error, a
  text that is not empty; the table body is what it was at the start, so a body that was empty
  stays empty, and no dataset is stored.
\<close>

theorem fetch_failure_shows_error:
  assumes "fetch \<lparr>url = DATA_FILE, cache = ''no-store''\<rparr> = Inl e
           \<or> (\<exists>r. fetch \<lparr>url = DATA_FILE, cache = ''no-store''\<rparr> = Inr r
                 \<and> (\<not> ok r \<or> (\<exists>e'. json r = Inl e')))"
  shows "\<exists>err. snd (loadData fetch) = Inl err
           \<and> errorHidden (session v True fetch before after pg) = False
           \<and> errorText (session v True fetch before after pg) =
               errorPrefix @ (if message err \<noteq> [] then message err else errorToString err)
           \<and> errorText (session v True fetch before after pg) \<noteq> []
           \<and> tbody (session v True fetch before after pg) = tbody pg
           \<and> data (session v True fetch before after pg) = None"
proof -
  from assms obtain err where err: "snd (loadData fetch) = Inl err"
    using loadData_fails by blast
  note f = session_failed [OF err, of v before after pg]
  have "errorText (session v True fetch before after pg) \<noteq> []"
    by (simp add: f(2) errorPrefix_nonempty)
  with err f show ?thesis by blast
qed

theorem fetch_failure_shows_error_witness:
  "errorHidden exPage
   \<and> errorHidden (session AppJs True (\<lambda>_. Inl \<lparr>errName = ''TypeError'', message = ''Failed to fetch''\<rparr>)
        [Change True] [Change False, Change True] exPage) = False
   \<and> errorText (session AppJs True (\<lambda>_. Inl \<lparr>errName = ''TypeError'', message = ''Failed to fetch''\<rparr>)
        [Change True] [Change False, Change True] exPage) = errorPrefix @ ''Failed to fetch''
   \<and> tbody (session AppJs True (\<lambda>_. Inl \<lparr>errName = ''TypeError'', message = ''Failed to fetch''\<rparr>)
        [Change True] [Change False, Change True] exPage) = Some []"
proof -
  let ?e = "\<lparr>errName = ''TypeError'', message = ''Failed to fetch''\<rparr>"
  let ?fetch = "(\<lambda>_. Inl ?e) :: request \<Rightarrow> js_error + response"
  have h: "?fetch \<lparr>url = DATA_FILE, cache = ''no-store''\<rparr> = Inl ?e
           \<or> (\<exists>r. ?fetch \<lparr>url = DATA_FILE, cache = ''no-store''\<rparr> = Inr r
                 \<and> (\<not> ok r \<or> (\<exists>e'. json r = Inl e')))"
    by simp
  have l: "snd (loadData ?fetch) = Inl ?e"
    by (simp add: loadData_def Let_def)
  from fetch_failure_shows_error [OF h, of AppJs "[Change True]" "[Change False, Change True]" exPage]
  show ?thesis
    by (simp add: l exPage_def)
qed

section \<open>The two voices\<close>

text \<open>
  C3. For every stored dataset, the table rendered for the voice \<open>active\<close> and the table
  rendered for the voice \<open>passive\<close> are equal once the markup of the formula blocks is blanked:
  same rows, same cells, same time cells, same descriptions, same marker chips, same placeholder
  cells. The cell of an absent aspect is the same for both voices, and so is the cell of an
  aspect that has no \<open>structures\<close> or the same structures for both voices.
\<close>

theorem voice_changes_formula_blocks_only:
  "map_option (map eraseFormulas) (tbody (render v (pg\<lparr>voice := ''active''\<rparr>)))
     = map_option (map eraseFormulas) (tbody (render v (pg\<lparr>voice := ''passive''\<rparr>)))
   \<and> renderCellContent None ''active'' = renderCellContent None ''passive''
   \<and> (structures a = None \<or> structuresFor a ''active'' = structuresFor a ''passive'' \<longrightarrow>
        renderCellContent (Some a) ''active'' = renderCellContent (Some a) ''passive'')"
proof (intro conjI impI)
  show "map_option (map eraseFormulas) (tbody (render v (pg\<lparr>voice := ''active''\<rparr>)))
     = map_option (map eraseFormulas) (tbody (render v (pg\<lparr>voice := ''passive''\<rparr>)))"
    by (simp add: render_tbody eraseFormulas_row [of v "''active''" _ "''passive''"]
          split: option.splits)
next
  show "renderCellContent None ''active'' = renderCellContent None ''passive''"
    by (simp add: renderCellContent_None)
next
  assume "structures a = None \<or> structuresFor a ''active'' = structuresFor a ''passive''"
  then have "structuresFor a ''active'' = structuresFor a ''passive''"
    by (auto simp: structuresFor_absent)
  then show "renderCellContent (Some a) ''active'' = renderCellContent (Some a) ''passive''"
    by (rule renderCellContent_same_structures)
qed

theorem voice_changes_formula_blocks_only_witness:
  "map_option (map eraseFormulas) (tbody (render AppJs (exPage\<lparr>data := Some exDataset, voice := ''active''\<rparr>)))
     = map_option (map eraseFormulas) (tbody (render AppJs (exPage\<lparr>data := Some exDataset, voice := ''passive''\<rparr>)))
   \<and> structures exBare = None
   \<and> renderCellContent (Some exBare) ''active'' = renderCellContent (Some exBare) ''passive''
   \<and> renderCellContent (Some exAspect) ''active'' \<noteq> renderCellContent (Some exAspect) ''passive''"
proof -
  note th = voice_changes_formula_blocks_only [of AppJs "exPage\<lparr>data := Some exDataset\<rparr>" exBare]
  have n: "structures exBare = None" by (simp add: exBare_def)
  have a: "renderCellContent (Some exBare) ''active'' = renderCellContent (Some exBare) ''passive''"
    using th [THEN conjunct2, THEN conjunct2] n by blast
  have "renderFormula (asEntry (getProp (indexByType (structuresFor exAspect ''active'')) ''Affirmative'')) ''aff''
      \<noteq> renderFormula (asEntry (getProp (indexByType (structuresFor exAspect ''passive'')) ''Affirmative'')) ''aff''"
    by (simp add: indexByType_find structuresFor_def exAspect_def getVoice_def renderFormula_def
          escapeHtml_concat entityOf_def)
  then have b: "renderCellContent (Some exAspect) ''active'' \<noteq> renderCellContent (Some exAspect) ''passive''"
    by (simp add: renderCellContent_Some)
  from th [THEN conjunct1] n a b show ?thesis by simp
qed

section \<open>The content of a cell\<close>



section \<open>Loading once\<close>

text \<open>
  C5, as stated, fails: the error message is not a fixed text, it ends with the message of the
  failure, so two failures show two different texts.
\<close>

theorem error_message_not_static_counterexample:
  "errorText (session AppJs True (\<lambda>_. Inr \<lparr>ok = False, status = 404, json = Inr None\<rparr>) [] [] exPage)
     = errorPrefix @ ''HTTP 404 while fetching ./time-tenses.json''
   \<and> errorText (session AppJs True (\<lambda>_. Inr \<lparr>ok = False, status = 500, json = Inr None\<rparr>) [] [] exPage)
     = errorPrefix @ ''HTTP 500 while fetching ./time-tenses.json''
   \<and> errorText (session AppJs True (\<lambda>_. Inr \<lparr>ok = False, status = 404, json = Inr None\<rparr>) [] [] exPage)
     \<noteq> errorText (session AppJs True (\<lambda>_. Inr \<lparr>ok = False, status = 500, json = Inr None\<rparr>) [] [] exPage)"
proof -
  have a: "snd (loadData (\<lambda>_. Inr \<lparr>ok = False, status = 404, json = Inr None\<rparr>)) =
      Inl \<lparr>errName = ''Error'', message = ''HTTP 404 while fetching ./time-tenses.json''\<rparr>"
    by (simp add: loadData_def Let_def showNat_404 DATA_FILE_def)
  have b: "snd (loadData (\<lambda>_. Inr \<lparr>ok = False, status = 500, json = Inr None\<rparr>)) =
      Inl \<lparr>errName = ''Error'', message = ''HTTP 500 while fetching ./time-tenses.json''\<rparr>"
    by (simp add: loadData_def Let_def showNat_500 DATA_FILE_def)
  show ?thesis
    by (simp add: session_failed(2) [OF a] session_failed(2) [OF b])
qed

text \<open>
  C5, amended. A run of the page calls \<open>fetch\<close> exactly once, at the start, for
  \<open>./time-tenses.json\<close> with the cache mode \<open>no-store\<close>, whatever the outcome and the events.
  On a response that is not a success the error region becomes visible and shows the prefix
  followed by \<open>HTTP\<close>, the status and the name of the file; on a body that does not parse it
  shows the prefix followed by the message of the parse error. In both cases the table body is
  left as it was and no dataset is stored, whatever the user selects later.
\<close>

theorem load_once_and_fail_with_message:
  "requests (session v True fetch before after pg) =
     requests pg @ [\<lparr>url = ''./time-tenses.json'', cache = ''no-store''\<rparr>]
   \<and> (fetch \<lparr>url = ''./time-tenses.json'', cache = ''no-store''\<rparr> = Inr r \<and> \<not> ok r \<longrightarrow>
        errorHidden (session v True fetch before after pg) = False
        \<and> errorText (session v True fetch before after pg) =
            errorPrefix @ ''HTTP '' @ showNat (status r) @ '' while fetching ./time-tenses.json''
        \<and> tbody (session v True fetch before after pg) = tbody pg
        \<and> data (session v True fetch before after pg) = None)
   \<and> (fetch \<lparr>url = ''./time-tenses.json'', cache = ''no-store''\<rparr> = Inr r \<and> ok r
        \<and> json r = Inl e \<longrightarrow>
        errorHidden (session v True fetch before after pg) = False
        \<and> errorText (session v True fetch before after pg) =
            errorPrefix @ (if message e \<noteq> [] then message e else errorToString e)
        \<and> tbody (session v True fetch before after pg) = tbody pg
        \<and> data (session v True fetch before after pg) = None)"
proof (intro conjI impI)
  show "requests (session v True fetch before after pg) =
     requests pg @ [\<lparr>url = ''./time-tenses.json'', cache = ''no-store''\<rparr>]"
    by (rule session_requests)
next
  assume "fetch \<lparr>url = ''./time-tenses.json'', cache = ''no-store''\<rparr> = Inr r \<and> \<not> ok r"
  then have "snd (loadData fetch) =
     Inl \<lparr>errName = ''Error'',
          message = ''HTTP '' @ showNat (status r) @ '' while fetching '' @ DATA_FILE\<rparr>"
    using loadData_not_ok [of fetch r] by (simp add: DATA_FILE_def)
  note f = session_failed [OF this, of v before after pg]
  show "errorHidden (session v True fetch before after pg) = False" by (rule f(1))
  show "errorText (session v True fetch before after pg) =
            errorPrefix @ ''HTTP '' @ showNat (status r) @ '' while fetching ./time-tenses.json''"
    using f(2) by (simp add: DATA_FILE_def)
  show "tbody (session v True fetch before after pg) = tbody pg" by (rule f(3))
  show "data (session v True fetch before after pg) = None" by (rule f(4))
next
  assume "fetch \<lparr>url = ''./time-tenses.json'', cache = ''no-store''\<rparr> = Inr r \<and> ok r
        \<and> json r = Inl e"
  then have "snd (loadData fetch) = Inl e"
    using loadData_ok [of fetch r] by (simp add: DATA_FILE_def)
  note f = session_failed [OF this, of v before after pg]
  show "errorHidden (session v True fetch before after pg) = False" by (rule f(1))
  show "errorText (session v True fetch before after pg) =
            errorPrefix @ (if message e \<noteq> [] then message e else errorToString e)"
    by (rule f(2))
  show "tbody (session v True fetch before after pg) = tbody pg" by (rule f(3))
  show "data (session v True fetch before after pg) = None" by (rule f(4))
qed

theorem load_once_and_fail_with_message_witness:
  "requests (session Part000 True (\<lambda>_. Inr \<lparr>ok = False, status = 404, json = Inr None\<rparr>)
      [ClickPassive] [ClickActive] exPage) = [\<lparr>url = ''./time-tenses.json'', cache = ''no-store''\<rparr>]
   \<and> errorText (session Part000 True (\<lambda>_. Inr \<lparr>ok = False, status = 404, json = Inr None\<rparr>)
      [ClickPassive] [ClickActive] exPage) = errorPrefix @ ''HTTP 404 while fetching ./time-tenses.json''
   \<and> tbody (session Part000 True (\<lambda>_. Inr \<lparr>ok = False, status = 404, json = Inr None\<rparr>)
      [ClickPassive] [ClickActive] exPage) = Some []"
  using load_once_and_fail_with_message
    [of Part000 "\<lambda>_. Inr \<lparr>ok = False, status = 404, json = Inr None\<rparr>" "[ClickPassive]" "[ClickActive]"
        exPage "\<lparr>ok = False, status = 404, json = Inr None\<rparr>" "\<lparr>errName = [], message = []\<rparr>"]
  by (simp add: showNat_404 exPage_def)

section \<open>Selecting a voice\<close>

text \<open>
  C6. The voice is \<open>active\<close> or \<open>passive\<close> in every run of the page. Every event that selects a
  voice (the change of the checkbox in the first file, a click on one of the two buttons in the
  second), from any state of the page, sets the voice to the one selected, leaves the controls
  with the class of that voice and without the class of the other one, and renders again: when
  a dataset is stored and the table has a body, the body becomes the rows of all tenses for the
  new voice; otherwise the body is left as it was.
\<close>

theorem selection_updates_indicator_and_rerenders:
  "(selects v ev = Some w \<longrightarrow>
      w \<in> {''active'', ''passive''}
      \<and> voice (handle v ev pg) = w
      \<and> isActive (handle v ev pg) = (w = ''active'')
      \<and> isPassive (handle v ev pg) = (w = ''passive'')
      \<and> isActive (handle v ev pg) \<noteq> isPassive (handle v ev pg)
      \<and> tbody (handle v ev pg) =
          (case data pg of
             None \<Rightarrow> tbody pg
           | Some d \<Rightarrow>
               (case tbody pg of
                  None \<Rightarrow> None
                | Some old \<Rightarrow> Some (map (renderRow v w) (tenses d)))))
   \<and> selects AppJs (Change b) = Some (if b then ''passive'' else ''active'')
   \<and> selects Part000 ClickActive = Some ''active''
   \<and> selects Part000 ClickPassive = Some ''passive''
   \<and> voice (session v True fetch before after pg) \<in> {''active'', ''passive''}"
proof (intro conjI impI)
  assume s: "selects v ev = Some w"
  note h = handle_selects [OF s]
  show "w \<in> {''active'', ''passive''}" by (rule h(1))
  show "voice (handle v ev pg) = w" by (rule h(2))
  show "isActive (handle v ev pg) = (w = ''active'')" by (rule h(3))
  show "isPassive (handle v ev pg) = (w = ''passive'')" by (rule h(4))
  show "isActive (handle v ev pg) \<noteq> isPassive (handle v ev pg)"
    using h(1) by (auto simp: h(3) h(4))
  show "tbody (handle v ev pg) =
          (case data pg of
             None \<Rightarrow> tbody pg
           | Some d \<Rightarrow>
               (case tbody pg of
                  None \<Rightarrow> None
                | Some old \<Rightarrow> Some (map (renderRow v w) (tenses d))))"
    by (rule h(5))
next
  show "voice (session v True fetch before after pg) \<in> {''active'', ''passive''}"
    by (rule session_voice)
qed simp_all

theorem selection_updates_indicator_and_rerenders_witness:
  "selects AppJs (Change True) = Some ''passive''
   \<and> voice (handle AppJs (Change True) (exPage\<lparr>data := Some \<lparr>tenses = []\<rparr>, tbody := Some [Text ''old'']\<rparr>)) = ''passive''
   \<and> isPassive (handle AppJs (Change True) (exPage\<lparr>data := Some \<lparr>tenses = []\<rparr>, tbody := Some [Text ''old'']\<rparr>))
   \<and> \<not> isActive (handle AppJs (Change True) (exPage\<lparr>data := Some \<lparr>tenses = []\<rparr>, tbody := Some [Text ''old'']\<rparr>))
   \<and> tbody (handle AppJs (Change True) (exPage\<lparr>data := Some \<lparr>tenses = []\<rparr>, tbody := Some [Text ''old'']\<rparr>)) = Some []"
proof -
  have s: "selects AppJs (Change True) = Some ''passive''" by simp
  note th = selection_updates_indicator_and_rerenders
    [where v = AppJs and ev = "Change True" and w = "''passive''"
       and pg = "exPage\<lparr>data := Some \<lparr>tenses = []\<rparr>, tbody := Some [Text ''old'']\<rparr>",
     THEN conjunct1, rule_format, OF s]
  from th s show ?thesis
    by (simp del: handle.simps)
qed

section \<open>The dataset is only read\<close>

text \<open>
  C7. \<open>render\<close> and the listeners leave the stored dataset as it is, and so does every
  sequence of renderings and selections. In a run whose load succeeds, the stored dataset is the
  loaded one at the end of the run and after any further sequence of such operations.
\<close>

theorem dataset_never_mutated:
  "data (render v pg) = data pg
   \<and> data (handle v ev pg) = data pg
   \<and> data (fold (perform v) ops pg) = data pg
   \<and> (snd (loadData fetch) = Inr d \<longrightarrow>
        data (session v True fetch before after pg) = d
        \<and> data (fold (perform v) ops (session v True fetch before after pg)) = d)"
proof (intro conjI impI)
  assume l: "snd (loadData fetch) = Inr d"
  show s: "data (session v True fetch before after pg) = d"
    by (simp add: session_found l fold_handle_frame settle_loaded)
  show "data (fold (perform v) ops (session v True fetch before after pg)) = d"
    by (simp add: fold_perform_data s)
qed (simp_all add: render_frame handle_frame fold_perform_data)

theorem dataset_never_mutated_witness:
  "data (fold (perform Part000) [Render, Select ClickPassive, Render, Select ClickActive]
      (session Part000 True (\<lambda>_. Inr \<lparr>ok = True, status = 200, json = Inr (Some exDataset)\<rparr>)
         [ClickPassive] [ClickActive] exPage)) = Some exDataset"
proof -
  have l: "snd (loadData (\<lambda>_. Inr \<lparr>ok = True, status = 200, json = Inr (Some exDataset)\<rparr>))
      = Inr (Some exDataset)"
    by (simp add: loadData_def Let_def)
  from dataset_never_mutated
    [where v = Part000 and d = "Some exDataset"
       and fetch = "\<lambda>_. Inr \<lparr>ok = True, status = 200, json = Inr (Some exDataset)\<rparr>",
     THEN conjunct2, THEN conjunct2, THEN conjunct2, rule_format, OF l, THEN conjunct2]
  show ?thesis .
qed

section \<open>The two files\<close>

text \<open>
  C8, as stated, fails: the two files do not build the same rows. The time cell of the first
  file holds the markup of one \<open>div\<close> of class \<open>time-name\<close>; the time cell of the second file
  holds a \<open>div\<close> of class \<open>cell-content\<close> around that \<open>div\<close>.
\<close>

theorem variants_differ_counterexample:
  "tbody (render AppJs (exPage\<lparr>data := Some exDataset\<rparr>))
     \<noteq> tbody (render Part000 (exPage\<lparr>data := Some exDataset\<rparr>))
   \<and> tdTime AppJs ''Present'' =
       Element ''td'' [] [Markup ''<div class=\"time-name\">Present</div>'']
   \<and> tdTime Part000 ''Present'' =
       Element ''td'' []
         [Element ''div'' ''cell-content'' [Element ''div'' ''time-name'' [Text ''Present'']]]"
  by (simp add: render_tbody exPage_def exDataset_def renderRow_eq tdTime_AppJs tdTime_Part000
        escapeHtml_concat entityOf_def)

text \<open>
  C8, amended. For every tense and voice the rows of the two files have five cells each and the
  same four aspect cells, and so have the tables of the two files. The time cells differ in
  structure: the first file writes the markup of a \<open>div\<close> of class \<open>time-name\<close> around the
  escaped time name, which reads back as the time name; the second file builds a \<open>div\<close> of class
  \<open>cell-content\<close> around a \<open>div\<close> of class \<open>time-name\<close> whose text is the time name.
\<close>

theorem variants_agree_on_aspect_cells:
  "tl (childNodes (renderRow AppJs vk t)) = tl (childNodes (renderRow Part000 vk t))
   \<and> length (childNodes (renderRow AppJs vk t)) = 5
   \<and> length (childNodes (renderRow Part000 vk t)) = 5
   \<and> hd (childNodes (renderRow AppJs vk t)) =
       Element ''td'' [] [Markup (''<div class=\"time-name\">'' @ escapeHtml (time t) @ ''</div>'')]
   \<and> hd (childNodes (renderRow Part000 vk t)) =
       Element ''td'' []
         [Element ''div'' ''cell-content''
            [Element ''div'' ''time-name'' (if time t = [] then [] else [Text (time t)])]]
   \<and> decodeEntities (escapeHtml (time t)) = time t
   \<and> map_option (map (\<lambda>row. tl (childNodes row))) (tbody (render AppJs pg))
       = map_option (map (\<lambda>row. tl (childNodes row))) (tbody (render Part000 pg))"
proof -
  have "map_option (map (\<lambda>row. tl (childNodes row))) (tbody (render AppJs pg))
       = map_option (map (\<lambda>row. tl (childNodes row))) (tbody (render Part000 pg))"
    by (simp add: render_tbody renderRow_eq split: option.splits)
  then show ?thesis
    by (simp add: renderRow_eq tdTime_AppJs tdTime_Part000 decodeEntities_escapeHtml)
qed

theorem variants_agree_on_aspect_cells_witness:
  "tl (childNodes (renderRow AppJs ''active'' \<lparr>time = ''Past & <gone>'', aspects = [exAspect]\<rparr>))
     = tl (childNodes (renderRow Part000 ''active'' \<lparr>time = ''Past & <gone>'', aspects = [exAspect]\<rparr>))
   \<and> hd (childNodes (renderRow AppJs ''active'' \<lparr>time = ''Past & <gone>'', aspects = [exAspect]\<rparr>)) =
       Element ''td'' [] [Markup ''<div class=\"time-name\">Past &amp; &lt;gone&gt;</div>'']
   \<and> hd (childNodes (renderRow Part000 ''active'' \<lparr>time = ''Past & <gone>'', aspects = [exAspect]\<rparr>)) =
       Element ''td'' []
         [Element ''div'' ''cell-content'' [Element ''div'' ''time-name'' [Text ''Past & <gone>'']]]
   \<and> decodeEntities ''Past &amp; &lt;gone&gt;'' = ''Past & <gone>''"
proof -
  note th = variants_agree_on_aspect_cells
    [of "''active''" "\<lparr>time = ''Past & <gone>'', aspects = [exAspect]\<rparr>" exPage]
  have e: "escapeHtml ''Past & <gone>'' = ''Past &amp; &lt;gone&gt;''"
    by (simp add: escapeHtml_concat entityOf_def)
  from th show ?thesis
    unfolding tense.simps e by simp
qed

section \<open>Escaping\<close>

text \<open>
  C9. For every input string, \<open>escapeHtml\<close> returns the string in which every occurrence of
  \<open>&\<close>, \<open><\<close>, \<open>>\<close>, double quote and single quote has been replaced by its entity and every
  other character is kept. The result holds none of \<open><\<close>, \<open>>\<close>, double quote and single quote, and
  reading its character references back gives the input, so every ampersand in it starts one of
  the five references. A formula that is present and not empty goes into the markup of
  \<open>renderFormula\<close> only through \<open>escapeHtml\<close>.
\<close>

theorem escapeHtml_replaces_specials:
  "escapeHtml s = concat (map entityOf s)
   \<and> (\<forall>c \<in> set (escapeHtml s). c \<notin> {CHR ''<'', CHR ''>'', CHR 0x22, CHR 0x27})
   \<and> decodeEntities (escapeHtml s) = s
   \<and> (\<forall>e f ty. formula e = Some f \<and> f \<noteq> [] \<longrightarrow>
         renderFormula (Some e) ty =
           ''<div class=\"formula'' @ (if ty = [] then [] else '' formula--'' @ ty) @ ''\">''
             @ escapeHtml f @ ''</div>'')"
proof (intro conjI ballI allI impI)
  show "escapeHtml s = concat (map entityOf s)"
    by (rule escapeHtml_concat)
next
  fix c assume "c \<in> set (escapeHtml s)"
  from escapeHtml_no_special [OF this]
  show "c \<notin> {CHR ''<'', CHR ''>'', CHR 0x22, CHR 0x27}"
    by simp
next
  show "decodeEntities (escapeHtml s) = s"
    by (rule decodeEntities_escapeHtml)
next
  fix e :: "structure" and f ty
  assume "formula e = Some f \<and> f \<noteq> []"
  then show "renderFormula (Some e) ty =
           ''<div class=\"formula'' @ (if ty = [] then [] else '' formula--'' @ ty) @ ''\">''
             @ escapeHtml f @ ''</div>''"
    using renderFormula_present [of e f ty] by blast
qed


theorem escapeHtml_replaces_specials_witness:
  "escapeHtml (''a<b>&'' @ [CHR 0x22, CHR 0x27]) = ''a&lt;b&gt;&amp;&quot;&#039;''
   \<and> CHR ''<'' \<notin> set (escapeHtml (''a<b>&'' @ [CHR 0x22, CHR 0x27]))
   \<and> renderFormula (Some \<lparr>type = ''Affirmative'', formula = Some ''S + <V>''\<rparr>) ''aff''
       = ''<div class=\"formula formula--aff\">S + &lt;V&gt;</div>''"
proof -
  let ?s = "''a<b>&'' @ [CHR 0x22, CHR 0x27]"
  let ?e = "\<lparr>type = ''Affirmative'', formula = Some ''S + <V>''\<rparr>"
  note th = escapeHtml_replaces_specials [of ?s]
  have a: "escapeHtml ?s = ''a&lt;b&gt;&amp;&quot;&#039;''"
    using th [THEN conjunct1] by (simp add: entityOf_def)
  have b: "CHR ''<'' \<notin> set (escapeHtml ?s)"
    using th [THEN conjunct2, THEN conjunct1] by blast
  have "renderFormula (Some ?e) ''aff''
      = ''<div class=\"formula'' @ '' formula--'' @ ''aff'' @ ''\">'' @ escapeHtml ''S + <V>'' @ ''</div>''"
    using th [THEN conjunct2, THEN conjunct2, THEN conjunct2, rule_format, of ?e "''S + <V>''" "''aff''"]
    by simp
  then have c: "renderFormula (Some ?e) ''aff''
      = ''<div class=\"formula formula--aff\">S + &lt;V&gt;</div>''"
    by (simp add: escapeHtml_concat entityOf_def)
  from a b c show ?thesis by blast
qed

section \<open>Indexing structures by type\<close>

text \<open>
  C10, as stated, fails, since the index is a plain object. For the empty list the key
  \<open>constructor\<close>, which is no type of the list, reads the member of \<open>Object.prototype\<close> and
  not \<open>undefined\<close>. For a list of one structure of type \<open>__proto__\<close> the object has no own
  key at all, although that type occurs in the list, and the key \<open>formula\<close> reads the formula
  of that structure.
\<close>

theorem indexByType_inherited_counterexample:
  "getProp (indexByType []) ''constructor'' = Inherited ''constructor''
   \<and> ''constructor'' \<notin> type ` set ([] :: structure list)
   \<and> dom (own (indexByType [\<lparr>type = ''__proto__'', formula = Some ''x''\<rparr>])) = {}
   \<and> ''__proto__'' \<in> type ` set [\<lparr>type = ''__proto__'', formula = Some ''x''\<rparr>]
   \<and> getProp (indexByType [\<lparr>type = ''__proto__'', formula = Some ''x''\<rparr>]) ''formula'' = Str ''x''
   \<and> ''formula'' \<notin> type ` set [\<lparr>type = ''__proto__'', formula = Some ''x''\<rparr>]"
  by (simp add: indexByType_def emptyObject_def setProp_def getProp_def fieldOf_def
        objectPrototypeNames_def)

text \<open>
  C10, amended. For every list of structures, reading a type that occurs in the list gives the
  last structure of the list bearing that type, also when the type is an inherited name.
  Reading a key that is no type of the list gives \<open>undefined\<close>, unless the key is a name that
  the object inherits: \<open>__proto__\<close>, a member of \<open>Object.prototype\<close>, or \<open>type\<close> or \<open>formula\<close>
  when a structure of type \<open>__proto__\<close> is in the list. The own keys of the object are the
  types that occur in the list, but \<open>__proto__\<close>. When the types of the list are pairwise
  different, reading the type of a structure of the list gives that structure.
\<close>

theorem indexByType_last_wins:
  "(find (\<lambda>x. type x = k) (rev ss) = Some s \<longrightarrow> getProp (indexByType ss) k = Struct s)
   \<and> (k \<in> type ` set ss \<longrightarrow> (\<exists>x. find (\<lambda>x. type x = k) (rev ss) = Some x))
   \<and> (k \<notin> type ` set ss \<and> k \<noteq> ''__proto__'' \<and> k \<notin> set objectPrototypeNames
        \<and> (''__proto__'' \<in> type ` set ss \<longrightarrow> k \<noteq> ''type'' \<and> k \<noteq> ''formula'') \<longrightarrow>
        getProp (indexByType ss) k = Undefined)
   \<and> dom (own (indexByType ss)) = type ` set ss - {''__proto__''}
   \<and> (distinct (map type ss) \<longrightarrow> (\<forall>x \<in> set ss. getProp (indexByType ss) (type x) = Struct x))"
proof (intro conjI impI ballI)
  assume "find (\<lambda>x. type x = k) (rev ss) = Some s"
  then show "getProp (indexByType ss) k = Struct s"
    by (rule getProp_found)
next
  assume "k \<in> type ` set ss"
  then have "find (\<lambda>x. type x = k) (rev ss) \<noteq> None"
    by (auto simp: find_None_iff)
  then show "\<exists>x. find (\<lambda>x. type x = k) (rev ss) = Some x"
    by blast
next
  assume a: "k \<notin> type ` set ss \<and> k \<noteq> ''__proto__'' \<and> k \<notin> set objectPrototypeNames
        \<and> (''__proto__'' \<in> type ` set ss \<longrightarrow> k \<noteq> ''type'' \<and> k \<noteq> ''formula'')"
  then have n: "find (\<lambda>x. type x = k) (rev ss) = None"
    by (auto simp: find_None_iff)
  have "(case proto (indexByType ss) of None \<Rightarrow> None | Some p \<Rightarrow> fieldOf p k) = None"
  proof (cases "find (\<lambda>x. type x = ''__proto__'') (rev ss)")
    case None
    then show ?thesis by (simp add: indexByType_proto)
  next
    case (Some p)
    then have "''__proto__'' \<in> type ` set ss"
      using find_Some_mem [OF Some] by force
    with a have "k \<noteq> ''type''" "k \<noteq> ''formula''" by blast+
    then show ?thesis by (simp add: indexByType_proto Some fieldOf_def)
  qed
  with a n show "getProp (indexByType ss) k = Undefined"
    by (simp add: getProp_def indexByType_own)
next
  show "dom (own (indexByType ss)) = type ` set ss - {''__proto__''}"
  proof -
    have "find (\<lambda>s. type s = x) (rev ss) \<noteq> None \<longleftrightarrow> x \<in> type ` set ss" for x
      by (simp add: find_type_None)
    then have "own (indexByType ss) x \<noteq> None \<longleftrightarrow> x \<in> type ` set ss \<and> x \<noteq> ''__proto__''" for x
      by (simp add: indexByType_own)
    then show ?thesis
      by (auto simp: dom_def)
  qed
next
  fix x assume d: "distinct (map type ss)" and x: "x \<in> set ss"
  from x have "find (\<lambda>y. type y = type x) (rev ss) \<noteq> None"
    by (auto simp: find_None_iff)
  then obtain y where y: "find (\<lambda>y. type y = type x) (rev ss) = Some y" by blast
  have "y \<in> set ss" "type y = type x"
    using find_Some_mem [OF y] by auto
  with d x have "y = x"
    by (auto simp: distinct_map dest: inj_onD)
  with y show "getProp (indexByType ss) (type x) = Struct x"
    by (simp add: getProp_found)
qed

theorem indexByType_last_wins_witness:
  "getProp (indexByType [\<lparr>type = ''Affirmative'', formula = Some ''old''\<rparr>,
                         \<lparr>type = ''Negative'', formula = Some ''n''\<rparr>,
                         \<lparr>type = ''Affirmative'', formula = Some ''new''\<rparr>]) ''Affirmative''
     = Struct \<lparr>type = ''Affirmative'', formula = Some ''new''\<rparr>
   \<and> getProp (indexByType [\<lparr>type = ''Affirmative'', formula = Some ''old''\<rparr>,
                           \<lparr>type = ''Negative'', formula = Some ''n''\<rparr>,
                           \<lparr>type = ''Affirmative'', formula = Some ''new''\<rparr>]) ''Question''
     = Undefined
   \<and> distinct (map type [\<lparr>type = ''Affirmative'', formula = Some ''a''\<rparr>,
                          \<lparr>type = ''Question'', formula = None\<rparr>])
   \<and> getProp (indexByType [\<lparr>type = ''Affirmative'', formula = Some ''a''\<rparr>,
                           \<lparr>type = ''Question'', formula = None\<rparr>]) ''Question''
     = Struct \<lparr>type = ''Question'', formula = None\<rparr>"
proof -
  let ?new = "\<lparr>type = ''Affirmative'', formula = Some ''new''\<rparr>"
  let ?xs = "[\<lparr>type = ''Affirmative'', formula = Some ''old''\<rparr>,
              \<lparr>type = ''Negative'', formula = Some ''n''\<rparr>, ?new]"
  let ?q = "\<lparr>type = ''Question'', formula = None\<rparr>"
  let ?ys = "[\<lparr>type = ''Affirmative'', formula = Some ''a''\<rparr>, ?q]"
  have f: "find (\<lambda>x. type x = ''Affirmative'') (rev ?xs) = Some ?new" by simp
  have a: "getProp (indexByType ?xs) ''Affirmative'' = Struct ?new"
    using indexByType_last_wins [of "''Affirmative''" ?xs ?new, THEN conjunct1, rule_format, OF f] .
  have h: "''Question'' \<notin> type ` set ?xs \<and> ''Question'' \<noteq> ''__proto__''
        \<and> ''Question'' \<notin> set objectPrototypeNames
        \<and> (''__proto__'' \<in> type ` set ?xs \<longrightarrow> ''Question'' \<noteq> ''type'' \<and> ''Question'' \<noteq> ''formula'')"
    by (simp add: objectPrototypeNames_def)
  have b: "getProp (indexByType ?xs) ''Question'' = Undefined"
    using indexByType_last_wins [of "''Question''" ?xs ?new,
        THEN conjunct2, THEN conjunct2, THEN conjunct1, rule_format, OF h] .
  have d: "distinct (map type ?ys)" by simp
  have "getProp (indexByType ?ys) (type ?q) = Struct ?q"
    using indexByType_last_wins [of "''x''" ?ys ?q,
        THEN conjunct2, THEN conjunct2, THEN conjunct2, THEN conjunct2, rule_format, OF d, of ?q]
    by simp
  then have c: "getProp (indexByType ?ys) ''Question'' = Struct ?q" by simp
  from a b d c show ?thesis by (intro conjI)
qed

end
